theory Spec2Isabelle
  imports Complex_Main "HOL-Library.Word" "HOL-Library.Sublist"
begin

section \<open>Data model of \<^verbatim>\<open>main.go\<close>\<close>

text \<open>
  The exporter is one Go file: \<^verbatim>\<open>main\<close>, \<^verbatim>\<open>oauthFlow\<close> and
  \<^verbatim>\<open>getWeightMeasurements\<close>, over two response structs. Everything else it calls is
  library code (\<^verbatim>\<open>os\<close>, \<^verbatim>\<open>fmt\<close>, \<^verbatim>\<open>net/http\<close>, \<^verbatim>\<open>encoding/json\<close>,
  \<^verbatim>\<open>prometheus\<close>). The library calls are the program's effects: what they answer is
  taken from a \<open>world\<close> record, what the program asks of them is written to a trace of
  events.

  Go's \<^verbatim>\<open>float64\<close> is modelled by the real number a finite value denotes. The only
  float operation of the program is \<^verbatim>\<open>Value / 1000\<close>; Go rounds the quotient to the
  nearest \<^verbatim>\<open>float64\<close>, the model keeps it exact. Go's \<^verbatim>\<open>int\<close> and \<^verbatim>\<open>int64\<close>
  fields are 64-bit words; the program never computes with them.
\<close>

type_synonym float64 = real

text \<open>An \<^verbatim>\<open>error\<close> value is represented by the text its \<^verbatim>\<open>Error()\<close> method yields.\<close>

type_synonym error = string

text \<open>\<^verbatim>\<open>RequestToken\<close> (lines 17-27). The anonymous struct of its \<^verbatim>\<open>Body\<close> field is a
  record of its own; the outer fields carry the prefix \<open>rt_\<close> because \<^verbatim>\<open>Measures\<close>
  has fields of the same names.\<close>

record RequestToken_Body =
  AccessToken :: string
  RefreshToken :: string
  Scope :: string
  ExpiresIn :: string
  TokenType :: string

record RequestToken =
  rt_Status :: "64 word"
  rt_Error :: string
  rt_Body :: RequestToken_Body

text \<open>\<^verbatim>\<open>Measures\<close> (lines 31-43), innermost struct first. A Go slice is a list;
  \<^verbatim>\<open>nil\<close> and the empty slice are both \<open>[]\<close> (the program only indexes them).\<close>

record Measure =
  Value :: float64
  Type :: "64 word"

record MeasureGroup =
  Date :: "64 word"
  Created :: "64 word"
  Measures :: "Measure list"

record Measures_Body =
  MeasureGroups :: "MeasureGroup list"

record Measures =
  ms_Status :: "64 word"
  ms_Body :: Measures_Body

text \<open>The zero values \<^verbatim>\<open>RequestToken{}\<close> and \<^verbatim>\<open>Measures{}\<close>.\<close>

definition RequestToken_zero :: RequestToken where
  "RequestToken_zero =
     \<lparr>rt_Status = 0, rt_Error = [],
      rt_Body = \<lparr>AccessToken = [], RefreshToken = [], Scope = [], ExpiresIn = [],
                 TokenType = []\<rparr>\<rparr>"

definition Measures_zero :: Measures where
  "Measures_zero = \<lparr>ms_Status = 0, ms_Body = \<lparr>MeasureGroups = []\<rparr>\<rparr>"

text \<open>An \<^verbatim>\<open>*http.Request\<close> as far as the program touches it, and an
  \<^verbatim>\<open>*http.Response\<close>: \<open>Body\<close> is the byte string \<^verbatim>\<open>ioutil.ReadAll(res.Body)\<close>
  yields (its error is assigned to \<^verbatim>\<open>err\<close> and never looked at).\<close>

record Request =
  Method :: string
  URL :: string
  Header :: "(string \<times> string) list"

record Response =
  StatusCode :: int
  Body :: string

section \<open>Effects\<close>

text \<open>A run-time panic of the Go runtime. \<open>IndexOutOfRange i n\<close> is
  \<^verbatim>\<open>index out of range [i] with length n\<close>.\<close>

datatype panic = NilPointerDereference | IndexOutOfRange nat nat

text \<open>What the program does to the outside, in program order.\<close>

datatype event =
    Stdout string                 \<comment> \<open>bytes written by \<^verbatim>\<open>fmt.Println\<close> / \<^verbatim>\<open>fmt.Printf\<close>\<close>
  | Stdin string                  \<comment> \<open>\<^verbatim>\<open>fmt.Scanln\<close> stored this word\<close>
  | NewRequest string string      \<comment> \<open>\<^verbatim>\<open>http.NewRequest(method, url, nil)\<close>\<close>
  | Do Request                    \<comment> \<open>\<^verbatim>\<open>client.Do(req)\<close>: the request goes out\<close>
  | ReadAll                       \<comment> \<open>\<^verbatim>\<open>ioutil.ReadAll(res.Body)\<close>\<close>
  | Close                         \<comment> \<open>the deferred \<^verbatim>\<open>res.Body.Close()\<close>\<close>
  | NewGauge string string        \<comment> \<open>\<^verbatim>\<open>prometheus.NewGauge\<close>: name, help\<close>
  | MustRegister string           \<comment> \<open>\<^verbatim>\<open>prometheus.MustRegister\<close> of the gauge named\<close>
  | GaugeSet string float64       \<comment> \<open>\<^verbatim>\<open>Set\<close> on the gauge named\<close>
  | LogPrintf string "float64 list" \<comment> \<open>\<^verbatim>\<open>log.Printf(format, args...)\<close>, left unformatted\<close>
  | Handle string                 \<comment> \<open>\<^verbatim>\<open>http.Handle(pattern, promhttp.Handler())\<close>\<close>
  | ListenAndServe string         \<comment> \<open>\<^verbatim>\<open>http.ListenAndServe(addr, nil)\<close> is entered\<close>
  | Served string                 \<comment> \<open>the serving loop dispatched a request for this path\<close>
  | LogFatal error                \<comment> \<open>\<^verbatim>\<open>log.Fatal(err)\<close>\<close>

text \<open>
  The answers of the outside world.
  \<^item> \<open>os_Getenv\<close>: the environment; an unset variable reads as the empty string.
  \<^item> \<open>fmt_Scanln\<close>: the word \<^verbatim>\<open>fmt.Scanln(&authCode)\<close> leaves in \<^verbatim>\<open>authCode\<close>
    (empty when the scan fails; the scan's error is dropped by the program).
  \<^item> \<open>http_NewRequest\<close>: the error of \<^verbatim>\<open>http.NewRequest\<close> for a method and a URL;
    \<open>None\<close> when the request is built. On an error the returned request is \<^verbatim>\<open>nil\<close>.
  \<^item> \<open>client_Do\<close>: the pair \<^verbatim>\<open>(res, err)\<close> of \<^verbatim>\<open>client.Do\<close>; \<open>None\<close> is \<^verbatim>\<open>nil\<close>.
    A transport failure answers \<open>(None, Some e)\<close>.
  \<^item> \<open>json_Unmarshal_RequestToken\<close>, \<open>json_Unmarshal_Measures\<close>:
    \<^verbatim>\<open>json.Unmarshal(body, &v)\<close> at the two struct types: from the bytes and the
    struct \<open>v\<close> points to, the struct afterwards and the error returned.
  \<^item> \<open>http_ListenAndServe\<close>: the error \<^verbatim>\<open>http.ListenAndServe\<close> returns for an
    address, \<open>None\<close> when it never returns (the server keeps serving).
  \<^item> \<open>http_served\<close>: the paths of the requests the serving loop of
    \<^verbatim>\<open>http.ListenAndServe\<close> dispatches, in order: all of them when it returns, any
    finite stretch of them when it does not.
\<close>

record world =
  os_Getenv :: "string \<Rightarrow> string"
  fmt_Scanln :: string
  http_NewRequest :: "string \<Rightarrow> string \<Rightarrow> error option"
  client_Do :: "Request \<Rightarrow> Response option \<times> error option"
  json_Unmarshal_RequestToken :: "string \<Rightarrow> RequestToken \<Rightarrow> RequestToken \<times> error option"
  json_Unmarshal_Measures :: "string \<Rightarrow> Measures \<Rightarrow> Measures \<times> error option"
  http_ListenAndServe :: "string \<Rightarrow> error option"
  http_served :: "string list"

section \<open>Formatting\<close>

definition nl :: string where
  "nl = [CHR 0x0A]"

text \<open>The verb \<^verbatim>\<open>%d\<close> of \<^verbatim>\<open>fmt.Sprintf\<close> on an \<^verbatim>\<open>int\<close>: decimal digits, a minus
  sign for a negative number. The verb \<^verbatim>\<open>%s\<close> on a string is the string itself, so
  a format with \<^verbatim>\<open>%s\<close> is written as a concatenation.\<close>

fun digits :: "nat \<Rightarrow> string" where
  "digits n =
     (if n < 10 then [''0123456789'' ! n]
      else digits (n div 10) @ [''0123456789'' ! (n mod 10)])"

definition fmt_d :: "int \<Rightarrow> string" where
  "fmt_d i = (if i < 0 then CHR ''-'' # digits (nat (- i)) else digits (nat i))"

text \<open>\<^verbatim>\<open>if err != nil { fmt.Println(err) }\<close>\<close>

definition println_err :: "error option \<Rightarrow> event list" where
  "println_err err = (case err of None \<Rightarrow> [] | Some e \<Rightarrow> [Stdout (e @ nl)])"

text \<open>Indexing a slice, \<^verbatim>\<open>xs[i]\<close>: a panic outside the slice.\<close>

definition index :: "'a list \<Rightarrow> nat \<Rightarrow> panic + 'a" where
  "index xs i = (if i < length xs then Inr (xs ! i) else Inl (IndexOutOfRange i (length xs)))"

section \<open>\<^verbatim>\<open>getWeightMeasurements\<close> (lines 111-135)\<close>

text \<open>
  Line by line. When \<^verbatim>\<open>http.NewRequest\<close> fails the error is printed and \<^verbatim>\<open>req\<close> is
  \<^verbatim>\<open>nil\<close>, so \<^verbatim>\<open>req.Header.Add\<close> on line 121 dereferences \<^verbatim>\<open>nil\<close>. When
  \<^verbatim>\<open>client.Do\<close> answers a \<^verbatim>\<open>nil\<close> response, its error is printed and the
  \<^verbatim>\<open>defer res.Body.Close()\<close> of line 128 evaluates \<^verbatim>\<open>res.Body\<close> on the spot, again
  on \<^verbatim>\<open>nil\<close>. Once the defer is in place, the body is closed on every way out,
  a panic included. The error of \<^verbatim>\<open>json.Unmarshal\<close> is dropped.
\<close>

definition getWeightMeasurements :: "world \<Rightarrow> string \<Rightarrow> string \<Rightarrow> event list \<times> (panic + float64)" where
  "getWeightMeasurements w withingsAPIBaseURL accessToken =
     (let weightMeasurementAPITypes = 1;
          url = withingsAPIBaseURL @ ''/measure?action=getmeas&meastypes=''
                @ fmt_d weightMeasurementAPITypes @ ''&category=1&lastupdate=integer'';
          method = ''POST'';
          err = http_NewRequest w method url;
          t1 = NewRequest method url # println_err err
      in case err of
           Some _ \<Rightarrow> (t1, Inl NilPointerDereference)
         | None \<Rightarrow>
            (let req0 = \<lparr>Method = method, URL = url, Header = []\<rparr>;
                 req = req0\<lparr>Header := Header req0 @ [(''Authorization'', ''Bearer '' @ accessToken)]\<rparr>;
                 (res, err) = client_Do w req;
                 t2 = t1 @ Do req # println_err err
             in case res of
                  None \<Rightarrow> (t2, Inl NilPointerDereference)
                | Some r \<Rightarrow>
                   (let body = Body r;
                        parsedMeasures = fst (json_Unmarshal_Measures w body Measures_zero);
                        t3 = t2 @ [ReadAll, Close]
                    in case index (MeasureGroups (ms_Body parsedMeasures)) 0 of
                         Inl p \<Rightarrow> (t3, Inl p)
                       | Inr g \<Rightarrow>
                          (case index (Measures g) 0 of
                             Inl p \<Rightarrow> (t3, Inl p)
                           | Inr m \<Rightarrow> (t3, Inr (Value m / 1000))))))"

section \<open>\<^verbatim>\<open>oauthFlow\<close> (lines 80-109)\<close>

text \<open>
  The two prompts are printed, one word is scanned into \<^verbatim>\<open>authCode\<close>, and the
  token request is built from the four strings. When \<^verbatim>\<open>http.NewRequest\<close> fails the
  error is printed and \<^verbatim>\<open>client.Do\<close> is called on a \<^verbatim>\<open>nil\<close> request, whose
  \<^verbatim>\<open>URL\<close> field \<^verbatim>\<open>net/http\<close> reads first: a nil dereference before anything is
  sent. When \<^verbatim>\<open>client.Do\<close> answers a \<^verbatim>\<open>nil\<close> response, its error is printed and
  line 100, \<^verbatim>\<open>defer res.Body.Close()\<close>, dereferences \<^verbatim>\<open>nil\<close>. The errors of
  \<^verbatim>\<open>ioutil.ReadAll\<close> and \<^verbatim>\<open>json.Unmarshal\<close> are never looked at.
\<close>

definition oauthFlow ::
  "world \<Rightarrow> string \<Rightarrow> string \<Rightarrow> string \<Rightarrow> string \<Rightarrow> event list \<times> (panic + string \<times> string)" where
  "oauthFlow w withingsAPIBaseURL clientID clientSecret scopes =
     (let authCode = fmt_Scanln w;
          t0 = [Stdout (''Go to https://account.withings.com/oauth2_user/authorize2?response_type=code&client_id=''
                        @ clientID @ ''&scope='' @ scopes
                        @ ''&state=issyl0-withings&redirect_uri=http://localhost'' @ nl),
                Stdout (''Enter the value of `code` from the returned query string:'' @ nl),
                Stdin authCode];
          url = withingsAPIBaseURL
                @ ''/v2/oauth2?action=requesttoken&grant_type=authorization_code&client_id=''
                @ clientID @ ''&client_secret='' @ clientSecret @ ''&code='' @ authCode
                @ ''&redirect_uri=http://localhost'';
          method = ''POST'';
          err = http_NewRequest w method url;
          t1 = t0 @ NewRequest method url # println_err err
      in case err of
           Some _ \<Rightarrow> (t1, Inl NilPointerDereference)
         | None \<Rightarrow>
            (let req = \<lparr>Method = method, URL = url, Header = []\<rparr>;
                 (res, err) = client_Do w req;
                 t2 = t1 @ Do req # println_err err
             in case res of
                  None \<Rightarrow> (t2, Inl NilPointerDereference)
                | Some r \<Rightarrow>
                   (let body = Body r;
                        parsedRequestToken =
                          fst (json_Unmarshal_RequestToken w body RequestToken_zero);
                        accessToken = AccessToken (rt_Body parsedRequestToken)
                    in (t2 @ [ReadAll,
                              Stdout (''To avoid reauthenticating every time, run `export WITHINGS_API_ACCESS_TOKEN=''
                                      @ accessToken @ ''`'' @ nl),
                              Close],
                        Inr (authCode, accessToken)))))"

section \<open>\<^verbatim>\<open>main\<close> (lines 45-78)\<close>

text \<open>How the process ends: \<^verbatim>\<open>main\<close> returns, the runtime panics, \<^verbatim>\<open>log.Fatal\<close>
  exits with status 1, or \<^verbatim>\<open>http.ListenAndServe\<close> never returns.\<close>

datatype exit = Returned | Panicked panic | Exit1 | Serving

definition withingsAPIBaseURL :: string where
  "withingsAPIBaseURL = ''https://wbsapi.withings.net''"

definition gauge_name :: string where
  "gauge_name = ''withings_current_weight''"

text \<open>
  Lines 62-77, which both branches of the token test run into. The gauge is made, the
  weight is fetched, the gauge is registered and set, the handler is mounted and the
  listener is entered. \<^verbatim>\<open>http.ListenAndServe\<close> runs the serving loop of \<^verbatim>\<open>net/http\<close>:
  each request it dispatches is answered by the default mux, on which the program
  mounted one handler, the library's \<^verbatim>\<open>promhttp.Handler()\<close>; it gathers the registry
  and runs no code of the program.
  \<^verbatim>\<open>prometheus.MustRegister\<close> and \<^verbatim>\<open>http.Handle\<close> panic on a second registration
  of the same name or pattern only; each is called once, in a fresh process, so they
  are events without a failing branch.
\<close>

definition main_metrics :: "world \<Rightarrow> string \<Rightarrow> event list \<times> exit" where
  "main_metrics w accessToken =
     (let t0 = [NewGauge gauge_name ''Shows the latest weight measurement (assumed in kg)''];
          (t1, r) = getWeightMeasurements w withingsAPIBaseURL accessToken
      in case r of
           Inl p \<Rightarrow> (t0 @ t1, Panicked p)
         | Inr currentWeight \<Rightarrow>
            (let t2 = t0 @ t1 @
                   [MustRegister gauge_name,
                    GaugeSet gauge_name currentWeight,
                    LogPrintf ''Setting withings_current_weight_metric to %fkg.'' [currentWeight],
                    Handle ''/metrics'',
                    LogPrintf ''Serving metrics on http://localhost:8080/metrics. Configure your Prometheus to scrape accordingly.'' [],
                    ListenAndServe '':8080'']
                   @ map Served (http_served w)
             in case http_ListenAndServe w '':8080'' of
                  None \<Rightarrow> (t2, Serving)
                | Some e \<Rightarrow> (t2 @ [LogFatal e], Exit1)))"

definition main :: "world \<Rightarrow> event list \<times> exit" where
  "main w =
     (let accessToken = os_Getenv w ''WITHINGS_API_ACCESS_TOKEN''
      in if accessToken = [] then
           (let clientID = os_Getenv w ''WITHINGS_APP_CLIENT_ID'';
                clientSecret = os_Getenv w ''WITHINGS_APP_CLIENT_SECRET''
            in if clientID = [] \<or> clientSecret = [] then
                 ([Stdout (''Set your Withings API application up with `WITHINGS_APP_CLIENT_ID` and `WITHINGS_APP_CLIENT_SECRET` envvars.'' @ nl)],
                  Returned)
               else
                 (let scopes = ''user.info,user.metrics'';
                      (t, r) = oauthFlow w withingsAPIBaseURL clientID clientSecret scopes
                  in case r of
                       Inl p \<Rightarrow> (t, Panicked p)
                     | Inr (_, accessToken) \<Rightarrow>
                        (let (t', e) = main_metrics w accessToken in (t @ t', e))))
         else main_metrics w accessToken)"

section \<open>Concrete worlds\<close>

text \<open>
  Response bodies for the examples: the mock measurement response of the specification,
  a fuller measurement response in the shape the Withings API documents (two groups,
  several measures, dates and types), one with an empty group list, a token response,
  and a body that is no JSON at all.
\<close>

definition body_75000 :: string where
  "body_75000 = ''{\"body\":{\"measuregrps\":[{\"measures\":[{\"value\":75000}]}]}}''"

definition body_full :: string where
  "body_full = ''{\"status\":0,\"body\":{\"measuregrps\":[{\"date\":1594245600,\"created\":1594246600,\"measures\":[{\"value\":75000,\"type\":1},{\"value\":180,\"type\":4}]},{\"date\":1594159200,\"created\":1594159300,\"measures\":[{\"value\":80000,\"type\":1}]}]}}''"

definition body_no_groups :: string where
  "body_no_groups = ''{\"status\":0,\"body\":{\"measuregrps\":[]}}''"

definition body_token :: string where
  "body_token = ''{\"status\":0,\"body\":{\"access_token\":\"a075f8c14fb8\",\"refresh_token\":\"f631236f02b9\",\"scope\":\"user.info,user.metrics\",\"expires_in\":\"10800\",\"token_type\":\"Bearer\"}}''"

definition body_html :: string where
  "body_html = ''<html>502 Bad Gateway</html>''"

text \<open>
  Stand-ins for \<^verbatim>\<open>json.Unmarshal\<close> that know these bodies only. Each JSON body is
  decoded into the struct as \<^verbatim>\<open>encoding/json\<close> does (a key fills the field whose tag
  or name it matches, a field without a key keeps its zero value); on any other body
  the struct is left as it was and a syntax error is returned.
\<close>

definition mock_Unmarshal_Measures :: "string \<Rightarrow> Measures \<Rightarrow> Measures \<times> error option" where
  "mock_Unmarshal_Measures body v =
     (if body = body_75000 then
        (v\<lparr>ms_Body := \<lparr>MeasureGroups =
              [\<lparr>Date = 0, Created = 0, Measures = [\<lparr>Value = 75000, Type = 0\<rparr>]\<rparr>]\<rparr>\<rparr>, None)
      else if body = body_full then
        (v\<lparr>ms_Status := 0, ms_Body := \<lparr>MeasureGroups =
              [\<lparr>Date = 1594245600, Created = 1594246600,
                Measures = [\<lparr>Value = 75000, Type = 1\<rparr>, \<lparr>Value = 180, Type = 4\<rparr>]\<rparr>,
               \<lparr>Date = 1594159200, Created = 1594159300,
                Measures = [\<lparr>Value = 80000, Type = 1\<rparr>]\<rparr>]\<rparr>\<rparr>, None)
      else if body = body_no_groups then
        (v\<lparr>ms_Status := 0, ms_Body := \<lparr>MeasureGroups = []\<rparr>\<rparr>, None)
      else (v, Some ''invalid character '<' looking for beginning of value''))"

definition mock_Unmarshal_RequestToken ::
  "string \<Rightarrow> RequestToken \<Rightarrow> RequestToken \<times> error option" where
  "mock_Unmarshal_RequestToken body v =
     (if body = body_token then
        (v\<lparr>rt_Status := 0,
           rt_Body := \<lparr>AccessToken = ''a075f8c14fb8'', RefreshToken = ''f631236f02b9'',
                       Scope = ''user.info,user.metrics'', ExpiresIn = ''10800'',
                       TokenType = ''Bearer''\<rparr>\<rparr>, None)
      else (v, Some ''invalid character '<' looking for beginning of value''))"

text \<open>Environments: a preset token; application credentials and no token; nothing
  set; a client id without a secret.\<close>

definition env_token :: "string \<Rightarrow> string" where
  "env_token k = (if k = ''WITHINGS_API_ACCESS_TOKEN'' then ''preset-t0ken'' else [])"

definition env_app :: "string \<Rightarrow> string" where
  "env_app k =
     (if k = ''WITHINGS_APP_CLIENT_ID'' then ''client-1d''
      else if k = ''WITHINGS_APP_CLIENT_SECRET'' then ''s3cret'' else [])"

definition env_unset :: "string \<Rightarrow> string" where
  "env_unset k = []"

definition env_id_only :: "string \<Rightarrow> string" where
  "env_id_only k = (if k = ''WITHINGS_APP_CLIENT_ID'' then ''client-1d'' else [])"

text \<open>Remote ends: one that answers every request with a given body, the API with both
  of its endpoints, and a network that is down.\<close>

definition answer :: "string \<Rightarrow> Request \<Rightarrow> Response option \<times> error option" where
  "answer body req = (Some \<lparr>StatusCode = 200, Body = body\<rparr>, None)"

definition api :: "string \<Rightarrow> Request \<Rightarrow> Response option \<times> error option" where
  "api measurements req =
     (if prefix (withingsAPIBaseURL @ ''/v2/oauth2?'') (URL req) then answer body_token req
      else answer measurements req)"

definition unreachable :: "Request \<Rightarrow> Response option \<times> error option" where
  "unreachable req = (None, Some ''dial tcp: lookup wbsapi.withings.net: no such host'')"

text \<open>A world from an environment and a remote end: the user types the code
  \<open>c0de\<close>, every request can be built, the listener never returns and serves two
  scrapes and one stray request.\<close>

definition mock_world ::
  "(string \<Rightarrow> string) \<Rightarrow> (Request \<Rightarrow> Response option \<times> error option) \<Rightarrow> world" where
  "mock_world env remote =
     \<lparr>os_Getenv = env, fmt_Scanln = ''c0de'',
      http_NewRequest = (\<lambda>method url. None),
      client_Do = remote,
      json_Unmarshal_RequestToken = mock_Unmarshal_RequestToken,
      json_Unmarshal_Measures = mock_Unmarshal_Measures,
      http_ListenAndServe = (\<lambda>addr. None),
      http_served = [''/metrics'', ''/favicon.ico'', ''/metrics'']\<rparr>"

section \<open>Reading a trace\<close>

text \<open>The two requests of the program, written out: the measurement request of
  \<^verbatim>\<open>getWeightMeasurements\<close> and the token request of \<^verbatim>\<open>oauthFlow\<close>.\<close>

abbreviation getmeas_url :: "string \<Rightarrow> string" where
  "getmeas_url base \<equiv> base @ ''/measure?action=getmeas&meastypes=1&category=1&lastupdate=integer''"

abbreviation getmeas_request :: "string \<Rightarrow> string \<Rightarrow> Request" where
  "getmeas_request base tok \<equiv>
     \<lparr>Method = ''POST'', URL = getmeas_url base,
      Header = [(''Authorization'', ''Bearer '' @ tok)]\<rparr>"

abbreviation token_url :: "string \<Rightarrow> string \<Rightarrow> string \<Rightarrow> string \<Rightarrow> string" where
  "token_url base clientID clientSecret authCode \<equiv>
     base @ ''/v2/oauth2?action=requesttoken&grant_type=authorization_code&client_id=''
     @ clientID @ ''&client_secret='' @ clientSecret @ ''&code='' @ authCode
     @ ''&redirect_uri=http://localhost''"

abbreviation token_request :: "string \<Rightarrow> string \<Rightarrow> string \<Rightarrow> string \<Rightarrow> Request" where
  "token_request base clientID clientSecret authCode \<equiv>
     \<lparr>Method = ''POST'', URL = token_url base clientID clientSecret authCode, Header = []\<rparr>"

text \<open>Kinds of events.\<close>

fun is_NewRequest :: "event \<Rightarrow> bool" where
  "is_NewRequest (NewRequest method url) = True"
| "is_NewRequest e = False"

fun is_Do :: "event \<Rightarrow> bool" where
  "is_Do (Do req) = True"
| "is_Do e = False"

fun is_GaugeSet :: "event \<Rightarrow> bool" where
  "is_GaugeSet (GaugeSet name v) = True"
| "is_GaugeSet e = False"

text \<open>The events by which the authorization flow shows from outside: the code is read
  from the console, or a request for the token endpoint of the API is built or sent.\<close>

fun oauth_event :: "event \<Rightarrow> bool" where
  "oauth_event (Stdin code) = True"
| "oauth_event (NewRequest method url) = prefix (withingsAPIBaseURL @ ''/v2/oauth2?'') url"
| "oauth_event (Do req) = prefix (withingsAPIBaseURL @ ''/v2/oauth2?'') (URL req)"
| "oauth_event e = False"

text \<open>The value a gauge holds after a trace: a new gauge holds 0, \<^verbatim>\<open>Set\<close> overwrites
  it, nothing else touches it. \<open>None\<close> while no gauge of the name was made.\<close>

fun gauge_step :: "string \<Rightarrow> float64 option \<Rightarrow> event \<Rightarrow> float64 option" where
  "gauge_step n v (NewGauge name help) = (if name = n then Some 0 else v)"
| "gauge_step n v (GaugeSet name x) = (if name = n then Some x else v)"
| "gauge_step n v e = v"

definition gauge_value :: "string \<Rightarrow> event list \<Rightarrow> float64 option" where
  "gauge_value n t = foldl (gauge_step n) None t"

text \<open>The events of the two fetching functions and of the making of the gauge, and
  the events that follow the entry into \<^verbatim>\<open>http.ListenAndServe\<close>.\<close>

fun startup_event :: "event \<Rightarrow> bool" where
  "startup_event (Stdout s) = True"
| "startup_event (Stdin code) = True"
| "startup_event (NewRequest method url) = True"
| "startup_event (Do req) = True"
| "startup_event ReadAll = True"
| "startup_event Close = True"
| "startup_event (NewGauge name help) = True"
| "startup_event e = False"

fun serving_event :: "event \<Rightarrow> bool" where
  "serving_event (Served path) = True"
| "serving_event (LogFatal e) = True"
| "serving_event e = False"

text \<open>What \<^verbatim>\<open>oauthFlow\<close> prints and reads before it builds its request.\<close>

abbreviation oauth_prompts :: "string \<Rightarrow> string \<Rightarrow> string \<Rightarrow> event list" where
  "oauth_prompts clientID scopes authCode \<equiv>
     [Stdout (''Go to https://account.withings.com/oauth2_user/authorize2?response_type=code&client_id=''
              @ clientID @ ''&scope='' @ scopes
              @ ''&state=issyl0-withings&redirect_uri=http://localhost'' @ nl),
      Stdout (''Enter the value of `code` from the returned query string:'' @ nl),
      Stdin authCode]"

text \<open>What \<^verbatim>\<open>main\<close> does between the fetch of the weight and the entry into the
  listener (lines 71-76).\<close>

abbreviation startup_tail :: "float64 \<Rightarrow> event list" where
  "startup_tail cw \<equiv>
     [MustRegister gauge_name,
      GaugeSet gauge_name cw,
      LogPrintf ''Setting withings_current_weight_metric to %fkg.'' [cw],
      Handle ''/metrics'',
      LogPrintf ''Serving metrics on http://localhost:8080/metrics. Configure your Prometheus to scrape accordingly.'' []]"

section \<open>The paths through the three functions\<close>

text \<open>
  Each function is a straight line with two places where it can fall over. The lemmas
  below give the whole result, trace and value, on each path; the claims are read off
  them.
\<close>

lemma fmt_d_1: "fmt_d 1 = ''1''"
  by (simp add: fmt_d_def)

lemma println_err_simps [simp]:
  "println_err None = []"
  "println_err (Some e) = [Stdout (e @ nl)]"
  by (simp_all add: println_err_def)

subsection \<open>\<^verbatim>\<open>getWeightMeasurements\<close>\<close>

lemma gwm_NewRequest_error:
  assumes "http_NewRequest w ''POST'' (getmeas_url base) = Some e"
  shows "getWeightMeasurements w base tok =
           ([NewRequest ''POST'' (getmeas_url base), Stdout (e @ nl)],
            Inl NilPointerDereference)"
  using assms by (simp add: getWeightMeasurements_def fmt_d_1 Let_def)

lemma gwm_Do_nil:
  assumes "http_NewRequest w ''POST'' (getmeas_url base) = None"
      and "client_Do w (getmeas_request base tok) = (None, err)"
  shows "getWeightMeasurements w base tok =
           (NewRequest ''POST'' (getmeas_url base) # Do (getmeas_request base tok)
              # println_err err,
            Inl NilPointerDereference)"
  using assms by (simp add: getWeightMeasurements_def fmt_d_1 Let_def)

lemma gwm_Do_response:
  assumes "http_NewRequest w ''POST'' (getmeas_url base) = None"
      and "client_Do w (getmeas_request base tok) = (Some res, err)"
  shows "getWeightMeasurements w base tok =
           (NewRequest ''POST'' (getmeas_url base) # Do (getmeas_request base tok)
              # println_err err @ [ReadAll, Close],
            case index (MeasureGroups (ms_Body (fst (json_Unmarshal_Measures w (Body res)
                          Measures_zero)))) 0 of
              Inl p \<Rightarrow> Inl p
            | Inr g \<Rightarrow>
               (case index (Measures g) 0 of
                  Inl p \<Rightarrow> Inl p
                | Inr m \<Rightarrow> Inr (Value m / 1000)))"
  using assms by (simp add: getWeightMeasurements_def fmt_d_1 Let_def split: sum.splits)

lemma gwm_cases [case_names NewRequest_error Do_nil Do_response]:
  obtains e where "http_NewRequest w ''POST'' (getmeas_url base) = Some e"
  | err where "http_NewRequest w ''POST'' (getmeas_url base) = None"
      and "client_Do w (getmeas_request base tok) = (None, err)"
  | res err where "http_NewRequest w ''POST'' (getmeas_url base) = None"
      and "client_Do w (getmeas_request base tok) = (Some res, err)"
proof (cases "http_NewRequest w ''POST'' (getmeas_url base)")
  case (Some e)
  then show ?thesis by (rule that(1))
next
  case None
  obtain res err where d: "client_Do w (getmeas_request base tok) = (res, err)"
    by (cases "client_Do w (getmeas_request base tok)")
  show ?thesis
  proof (cases res)
    case None': None
    with None d show ?thesis by (auto intro: that(2))
  next
    case (Some r)
    with None d show ?thesis by (auto intro: that(3))
  qed
qed

subsection \<open>\<^verbatim>\<open>oauthFlow\<close>\<close>

lemma oauthFlow_NewRequest_error:
  assumes "http_NewRequest w ''POST'' (token_url base clientID clientSecret (fmt_Scanln w)) = Some e"
  shows "oauthFlow w base clientID clientSecret scopes =
           (oauth_prompts clientID scopes (fmt_Scanln w)
              @ [NewRequest ''POST'' (token_url base clientID clientSecret (fmt_Scanln w)),
                 Stdout (e @ nl)],
            Inl NilPointerDereference)"
  using assms by (simp add: oauthFlow_def Let_def)

lemma oauthFlow_Do_nil:
  assumes "http_NewRequest w ''POST'' (token_url base clientID clientSecret (fmt_Scanln w)) = None"
      and "client_Do w (token_request base clientID clientSecret (fmt_Scanln w)) = (None, err)"
  shows "oauthFlow w base clientID clientSecret scopes =
           (oauth_prompts clientID scopes (fmt_Scanln w)
              @ NewRequest ''POST'' (token_url base clientID clientSecret (fmt_Scanln w))
              # Do (token_request base clientID clientSecret (fmt_Scanln w))
              # println_err err,
            Inl NilPointerDereference)"
  using assms by (simp add: oauthFlow_def Let_def)

lemma oauthFlow_Do_response:
  assumes "http_NewRequest w ''POST'' (token_url base clientID clientSecret (fmt_Scanln w)) = None"
      and "client_Do w (token_request base clientID clientSecret (fmt_Scanln w)) = (Some res, err)"
  shows "oauthFlow w base clientID clientSecret scopes =
           (oauth_prompts clientID scopes (fmt_Scanln w)
              @ NewRequest ''POST'' (token_url base clientID clientSecret (fmt_Scanln w))
              # Do (token_request base clientID clientSecret (fmt_Scanln w))
              # println_err err
              @ [ReadAll,
                 Stdout (''To avoid reauthenticating every time, run `export WITHINGS_API_ACCESS_TOKEN=''
                         @ AccessToken (rt_Body (fst (json_Unmarshal_RequestToken w (Body res)
                               RequestToken_zero))) @ ''`'' @ nl),
                 Close],
            Inr (fmt_Scanln w,
                 AccessToken (rt_Body (fst (json_Unmarshal_RequestToken w (Body res)
                    RequestToken_zero)))))"
  using assms by (simp add: oauthFlow_def Let_def)

lemma oauthFlow_cases [case_names NewRequest_error Do_nil Do_response]:
  obtains e where
      "http_NewRequest w ''POST'' (token_url base clientID clientSecret (fmt_Scanln w)) = Some e"
  | err where
      "http_NewRequest w ''POST'' (token_url base clientID clientSecret (fmt_Scanln w)) = None"
      and "client_Do w (token_request base clientID clientSecret (fmt_Scanln w)) = (None, err)"
  | res err where
      "http_NewRequest w ''POST'' (token_url base clientID clientSecret (fmt_Scanln w)) = None"
      and "client_Do w (token_request base clientID clientSecret (fmt_Scanln w)) = (Some res, err)"
proof (cases "http_NewRequest w ''POST'' (token_url base clientID clientSecret (fmt_Scanln w))")
  case (Some e)
  then show ?thesis by (rule that(1))
next
  case None
  obtain res err where d:
    "client_Do w (token_request base clientID clientSecret (fmt_Scanln w)) = (res, err)"
    by (cases "client_Do w (token_request base clientID clientSecret (fmt_Scanln w))")
  show ?thesis
  proof (cases res)
    case None': None
    with None d show ?thesis by (auto intro: that(2))
  next
    case (Some r)
    with None d show ?thesis by (auto intro: that(3))
  qed
qed

subsection \<open>\<^verbatim>\<open>main\<close>\<close>

lemma main_metrics_panic:
  assumes "snd (getWeightMeasurements w withingsAPIBaseURL tok) = Inl p"
  shows "main_metrics w tok =
           (NewGauge gauge_name ''Shows the latest weight measurement (assumed in kg)''
              # fst (getWeightMeasurements w withingsAPIBaseURL tok), Panicked p)"
  using assms
  by (cases "getWeightMeasurements w withingsAPIBaseURL tok") (simp add: main_metrics_def)

lemma main_metrics_serving:
  assumes "snd (getWeightMeasurements w withingsAPIBaseURL tok) = Inr cw"
  shows "main_metrics w tok =
           (NewGauge gauge_name ''Shows the latest weight measurement (assumed in kg)''
              # fst (getWeightMeasurements w withingsAPIBaseURL tok)
              @ startup_tail cw @ ListenAndServe '':8080'' # map Served (http_served w)
              @ (case http_ListenAndServe w '':8080'' of None \<Rightarrow> [] | Some e \<Rightarrow> [LogFatal e]),
            case http_ListenAndServe w '':8080'' of None \<Rightarrow> Serving | Some e \<Rightarrow> Exit1)"
  using assms
  by (cases "getWeightMeasurements w withingsAPIBaseURL tok")
     (simp add: main_metrics_def split: option.splits)

lemma main_preset:
  assumes "os_Getenv w ''WITHINGS_API_ACCESS_TOKEN'' \<noteq> []"
  shows "main w = main_metrics w (os_Getenv w ''WITHINGS_API_ACCESS_TOKEN'')"
  using assms by (simp add: main_def Let_def)

lemma main_no_credentials:
  assumes "os_Getenv w ''WITHINGS_API_ACCESS_TOKEN'' = []"
      and "os_Getenv w ''WITHINGS_APP_CLIENT_ID'' = [] \<or> os_Getenv w ''WITHINGS_APP_CLIENT_SECRET'' = []"
  shows "main w =
           ([Stdout (''Set your Withings API application up with `WITHINGS_APP_CLIENT_ID` and `WITHINGS_APP_CLIENT_SECRET` envvars.'' @ nl)],
            Returned)"
  using assms by (auto simp: main_def Let_def)

lemma main_oauth:
  assumes "os_Getenv w ''WITHINGS_API_ACCESS_TOKEN'' = []"
      and "os_Getenv w ''WITHINGS_APP_CLIENT_ID'' \<noteq> []"
      and "os_Getenv w ''WITHINGS_APP_CLIENT_SECRET'' \<noteq> []"
  shows "main w =
     (case snd (oauthFlow w withingsAPIBaseURL (os_Getenv w ''WITHINGS_APP_CLIENT_ID'')
                  (os_Getenv w ''WITHINGS_APP_CLIENT_SECRET'') ''user.info,user.metrics'') of
        Inl p \<Rightarrow>
          (fst (oauthFlow w withingsAPIBaseURL (os_Getenv w ''WITHINGS_APP_CLIENT_ID'')
                  (os_Getenv w ''WITHINGS_APP_CLIENT_SECRET'') ''user.info,user.metrics''),
           Panicked p)
      | Inr (code, tok) \<Rightarrow>
          (fst (oauthFlow w withingsAPIBaseURL (os_Getenv w ''WITHINGS_APP_CLIENT_ID'')
                  (os_Getenv w ''WITHINGS_APP_CLIENT_SECRET'') ''user.info,user.metrics'')
             @ fst (main_metrics w tok),
           snd (main_metrics w tok)))"
  using assms
  by (cases "oauthFlow w withingsAPIBaseURL (os_Getenv w ''WITHINGS_APP_CLIENT_ID'')
                  (os_Getenv w ''WITHINGS_APP_CLIENT_SECRET'') ''user.info,user.metrics''")
     (simp add: main_def Let_def split: sum.splits prod.splits)

lemma main_metrics_not_Returned: "snd (main_metrics w tok) \<noteq> Returned"
  by (cases "snd (getWeightMeasurements w withingsAPIBaseURL tok)")
     (simp_all add: main_metrics_panic main_metrics_serving split: option.splits)

section \<open>Facts about the traces\<close>

lemma println_err_startup: "list_all startup_event (println_err err)"
  by (cases err) simp_all

lemma println_err_no_oauth: "list_all (\<lambda>e. \<not> oauth_event e) (println_err err)"
  by (cases err) simp_all

lemma println_err_no_Do: "Do req \<notin> set (println_err err)"
  by (cases err) simp_all

lemma println_err_no_request [simp]:
  "filter is_NewRequest (println_err err) = []" "filter is_Do (println_err err) = []"
  by (cases err; simp)+

lemma gwm_startup_events: "list_all startup_event (fst (getWeightMeasurements w base tok))"
proof (cases "http_NewRequest w ''POST'' (getmeas_url base)")
  case (Some e)
  then show ?thesis by (simp add: gwm_NewRequest_error)
next
  case None
  obtain res err where d: "client_Do w (getmeas_request base tok) = (res, err)"
    by (cases "client_Do w (getmeas_request base tok)")
  show ?thesis
  proof (cases res)
    case None': None
    with None d show ?thesis by (simp add: gwm_Do_nil println_err_startup)
  next
    case (Some r)
    with None d show ?thesis by (simp add: gwm_Do_response println_err_startup)
  qed
qed

lemma oauthFlow_startup_events:
  "list_all startup_event (fst (oauthFlow w base clientID clientSecret scopes))"
proof (cases "http_NewRequest w ''POST'' (token_url base clientID clientSecret (fmt_Scanln w))")
  case (Some e)
  then show ?thesis by (simp add: oauthFlow_NewRequest_error)
next
  case None
  obtain res err where d:
    "client_Do w (token_request base clientID clientSecret (fmt_Scanln w)) = (res, err)"
    by (cases "client_Do w (token_request base clientID clientSecret (fmt_Scanln w))")
  show ?thesis
  proof (cases res)
    case None': None
    with None d show ?thesis by (simp add: oauthFlow_Do_nil println_err_startup)
  next
    case (Some r)
    with None d show ?thesis by (simp add: oauthFlow_Do_response println_err_startup)
  qed
qed

lemma gwm_no_oauth_event:
  "list_all (\<lambda>e. \<not> oauth_event e) (fst (getWeightMeasurements w withingsAPIBaseURL tok))"
proof (cases rule: gwm_cases [where w = w and base = withingsAPIBaseURL and tok = tok])
  case (NewRequest_error e)
  then show ?thesis by (simp add: gwm_NewRequest_error)
next
  case (Do_nil err)
  then show ?thesis by (simp add: gwm_Do_nil println_err_no_oauth)
next
  case (Do_response res err)
  then show ?thesis by (simp add: gwm_Do_response println_err_no_oauth)
qed

lemma gwm_Do_sent:
  assumes "Do req \<in> set (fst (getWeightMeasurements w base tok))"
  shows "req = getmeas_request base tok"
proof (cases rule: gwm_cases [where w = w and base = base and tok = tok])
  case (NewRequest_error e)
  with assms show ?thesis by (simp add: gwm_NewRequest_error)
next
  case (Do_nil err)
  with assms show ?thesis by (simp add: gwm_Do_nil println_err_no_Do)
next
  case (Do_response res err)
  with assms show ?thesis by (simp add: gwm_Do_response println_err_no_Do)
qed

lemma main_metrics_trace_prefix:
  "prefix (NewGauge gauge_name ''Shows the latest weight measurement (assumed in kg)''
            # fst (getWeightMeasurements w withingsAPIBaseURL tok))
          (fst (main_metrics w tok))"
proof (cases "snd (getWeightMeasurements w withingsAPIBaseURL tok)")
  case (Inl p)
  then show ?thesis by (simp add: main_metrics_panic)
next
  case (Inr cw)
  then show ?thesis by (simp add: main_metrics_serving)
qed

lemma main_metrics_no_oauth_event:
  "list_all (\<lambda>e. \<not> oauth_event e) (fst (main_metrics w tok))"
proof (cases "snd (getWeightMeasurements w withingsAPIBaseURL tok)")
  case (Inl p)
  then show ?thesis by (simp add: main_metrics_panic gwm_no_oauth_event)
next
  case (Inr cw)
  then show ?thesis
    using gwm_no_oauth_event [of w tok]
    by (auto simp: main_metrics_serving list_all_iff split: option.splits)
qed

lemma main_metrics_Do_sent:
  assumes "Do req \<in> set (fst (main_metrics w tok))"
  shows "req = getmeas_request withingsAPIBaseURL tok"
proof (cases "snd (getWeightMeasurements w withingsAPIBaseURL tok)")
  case (Inl p)
  with assms show ?thesis by (auto simp: main_metrics_panic dest: gwm_Do_sent)
next
  case (Inr cw)
  with assms show ?thesis
    by (auto simp: main_metrics_serving dest: gwm_Do_sent split: option.splits)
qed

text \<open>
  Every call of \<^verbatim>\<open>oauthFlow\<close> shows in the trace, whatever the world answers: the
  code is read from the console before anything can fail.
\<close>

lemma oauthFlow_shows:
  "\<not> list_all (\<lambda>e. \<not> oauth_event e) (fst (oauthFlow w base clientID clientSecret scopes))"
proof (cases rule: oauthFlow_cases [where w = w and base = base and clientID = clientID and clientSecret = clientSecret])
  case (NewRequest_error e)
  then show ?thesis by (simp add: oauthFlow_NewRequest_error)
next
  case (Do_nil err)
  then show ?thesis by (simp add: oauthFlow_Do_nil)
next
  case (Do_response res err)
  then show ?thesis by (simp add: oauthFlow_Do_response)
qed

lemma startup_event_not_listener:
  assumes "list_all startup_event t"
  shows "ListenAndServe addr \<notin> set t"
  using assms by (auto simp: list_all_iff)

lemma startup_event_no_GaugeSet:
  assumes "list_all startup_event t"
  shows "filter is_GaugeSet t = []"
proof -
  have "\<not> is_GaugeSet e" if "startup_event e" for e
    using that by (cases e) simp_all
  with assms show ?thesis by (auto simp: list_all_iff filter_empty_conv)
qed

lemma serving_event_no_GaugeSet:
  assumes "list_all serving_event t"
  shows "filter is_GaugeSet t = []"
proof -
  have "\<not> is_GaugeSet e" if "serving_event e" for e
    using that by (cases e) simp_all
  with assms show ?thesis by (auto simp: list_all_iff filter_empty_conv)
qed

lemma serving_event_gauge_step:
  assumes "serving_event e"
  shows "gauge_step n v e = v"
  using assms by (cases e) simp_all

lemma serving_events_keep_gauge:
  assumes "list_all serving_event t"
  shows "foldl (gauge_step n) v t = v"
  using assms by (induction t arbitrary: v) (simp_all add: serving_event_gauge_step)

lemma take_past_prefix:
  assumes "length xs \<le> k"
  shows "take k (xs @ ys) = xs @ take (k - length xs) ys"
  using assms by simp

lemma main_metrics_listener:
  assumes "ListenAndServe '':8080'' \<in> set (fst (main_metrics w tok))"
  obtains cw S where "snd (getWeightMeasurements w withingsAPIBaseURL tok) = Inr cw"
    and "fst (main_metrics w tok) =
           (NewGauge gauge_name ''Shows the latest weight measurement (assumed in kg)''
              # fst (getWeightMeasurements w withingsAPIBaseURL tok))
           @ startup_tail cw @ ListenAndServe '':8080'' # S"
    and "list_all serving_event S"
proof (cases "snd (getWeightMeasurements w withingsAPIBaseURL tok)")
  case (Inl p)
  with assms startup_event_not_listener [OF gwm_startup_events [of w withingsAPIBaseURL tok]]
  show ?thesis by (simp add: main_metrics_panic)
next
  case (Inr cw)
  let ?S = "map Served (http_served w)
            @ (case http_ListenAndServe w '':8080'' of None \<Rightarrow> [] | Some e \<Rightarrow> [LogFatal e])"
  have "list_all serving_event ?S"
    by (simp add: list_all_iff split: option.splits) auto
  with Inr show ?thesis
    by (intro that [of cw ?S]) (simp_all add: main_metrics_serving)
qed

lemma main_listener:
  assumes "ListenAndServe '':8080'' \<in> set (fst (main w))"
  obtains P cw S where "fst (main w) = P @ startup_tail cw @ ListenAndServe '':8080'' # S"
    and "list_all startup_event P"
    and "list_all serving_event S"
    and "if os_Getenv w ''WITHINGS_API_ACCESS_TOKEN'' \<noteq> [] then
           snd (getWeightMeasurements w withingsAPIBaseURL
                  (os_Getenv w ''WITHINGS_API_ACCESS_TOKEN'')) = Inr cw
         else
           (\<exists>code tok.
              snd (oauthFlow w withingsAPIBaseURL (os_Getenv w ''WITHINGS_APP_CLIENT_ID'')
                     (os_Getenv w ''WITHINGS_APP_CLIENT_SECRET'') ''user.info,user.metrics'')
                = Inr (code, tok)
              \<and> snd (getWeightMeasurements w withingsAPIBaseURL tok) = Inr cw)"
proof (cases "os_Getenv w ''WITHINGS_API_ACCESS_TOKEN'' = []")
  case False
  let ?tok = "os_Getenv w ''WITHINGS_API_ACCESS_TOKEN''"
  from False have m: "main w = main_metrics w ?tok" by (rule main_preset)
  with assms have "ListenAndServe '':8080'' \<in> set (fst (main_metrics w ?tok))" by simp
  then obtain cw S where "snd (getWeightMeasurements w withingsAPIBaseURL ?tok) = Inr cw"
    and "fst (main_metrics w ?tok) =
           (NewGauge gauge_name ''Shows the latest weight measurement (assumed in kg)''
              # fst (getWeightMeasurements w withingsAPIBaseURL ?tok))
           @ startup_tail cw @ ListenAndServe '':8080'' # S"
    and "list_all serving_event S"
    by (rule main_metrics_listener)
  with False m show ?thesis
    by (intro that [of "NewGauge gauge_name ''Shows the latest weight measurement (assumed in kg)''
              # fst (getWeightMeasurements w withingsAPIBaseURL ?tok)" cw S])
       (simp_all add: gwm_startup_events)
next
  case True
  let ?id = "os_Getenv w ''WITHINGS_APP_CLIENT_ID''"
  let ?secret = "os_Getenv w ''WITHINGS_APP_CLIENT_SECRET''"
  let ?flow = "oauthFlow w withingsAPIBaseURL ?id ?secret ''user.info,user.metrics''"
  have creds: "?id \<noteq> []" "?secret \<noteq> []"
    using assms True main_no_credentials [of w] by auto
  note m = main_oauth [OF True creds]
  show ?thesis
  proof (cases "snd ?flow")
    case (Inl p)
    with m assms startup_event_not_listener [OF oauthFlow_startup_events
        [of w withingsAPIBaseURL ?id ?secret "''user.info,user.metrics''"]]
    show ?thesis by simp
  next
    case (Inr r)
    obtain code tok where r: "r = (code, tok)" by (cases r)
    from m Inr r have t: "fst (main w) = fst ?flow @ fst (main_metrics w tok)" by simp
    from assms t startup_event_not_listener [OF oauthFlow_startup_events
        [of w withingsAPIBaseURL ?id ?secret "''user.info,user.metrics''"]]
    have "ListenAndServe '':8080'' \<in> set (fst (main_metrics w tok))" by simp
    then obtain cw S where "snd (getWeightMeasurements w withingsAPIBaseURL tok) = Inr cw"
      and "fst (main_metrics w tok) =
             (NewGauge gauge_name ''Shows the latest weight measurement (assumed in kg)''
                # fst (getWeightMeasurements w withingsAPIBaseURL tok))
             @ startup_tail cw @ ListenAndServe '':8080'' # S"
      and "list_all serving_event S"
      by (rule main_metrics_listener)
    with True t Inr r show ?thesis
      by (intro that [of "fst ?flow
              @ NewGauge gauge_name ''Shows the latest weight measurement (assumed in kg)''
              # fst (getWeightMeasurements w withingsAPIBaseURL tok)" cw S])
         (simp_all add: gwm_startup_events oauthFlow_startup_events)
  qed
qed

section \<open>The concrete worlds, run\<close>

lemma mock_world_sel [simp]:
  "os_Getenv (mock_world env remote) = env"
  "fmt_Scanln (mock_world env remote) = ''c0de''"
  "http_NewRequest (mock_world env remote) method url = None"
  "client_Do (mock_world env remote) = remote"
  "json_Unmarshal_RequestToken (mock_world env remote) = mock_Unmarshal_RequestToken"
  "json_Unmarshal_Measures (mock_world env remote) = mock_Unmarshal_Measures"
  "http_ListenAndServe (mock_world env remote) addr = None"
  "http_served (mock_world env remote) = [''/metrics'', ''/favicon.ico'', ''/metrics'']"
  by (simp_all add: mock_world_def)

lemma env_simps [simp]:
  "env_token ''WITHINGS_API_ACCESS_TOKEN'' = ''preset-t0ken''"
  "env_app ''WITHINGS_API_ACCESS_TOKEN'' = []"
  "env_app ''WITHINGS_APP_CLIENT_ID'' = ''client-1d''"
  "env_app ''WITHINGS_APP_CLIENT_SECRET'' = ''s3cret''"
  "env_unset k = []"
  "env_id_only ''WITHINGS_API_ACCESS_TOKEN'' = []"
  "env_id_only ''WITHINGS_APP_CLIENT_ID'' = ''client-1d''"
  "env_id_only ''WITHINGS_APP_CLIENT_SECRET'' = []"
  by (simp_all add: env_token_def env_app_def env_unset_def env_id_only_def)

lemma bodies_distinct [simp]:
  "body_full \<noteq> body_75000" "body_no_groups \<noteq> body_75000" "body_no_groups \<noteq> body_full"
  "body_html \<noteq> body_75000" "body_html \<noteq> body_full" "body_html \<noteq> body_no_groups"
  "body_html \<noteq> body_token"
  by (simp_all add: body_75000_def body_full_def body_no_groups_def body_html_def
        body_token_def)


lemma RequestToken_zero_token: "AccessToken (rt_Body RequestToken_zero) = []"
  by (simp add: RequestToken_zero_def)

lemma mock_Unmarshal_75000:
  "mock_Unmarshal_Measures body_75000 Measures_zero =
     (\<lparr>ms_Status = 0, ms_Body = \<lparr>MeasureGroups =
        [\<lparr>Date = 0, Created = 0, Measures = [\<lparr>Value = 75000, Type = 0\<rparr>]\<rparr>]\<rparr>\<rparr>, None)"
  by (simp add: mock_Unmarshal_Measures_def Measures_zero_def)

lemma mock_Unmarshal_full:
  "mock_Unmarshal_Measures body_full Measures_zero =
     (\<lparr>ms_Status = 0, ms_Body = \<lparr>MeasureGroups =
        [\<lparr>Date = 1594245600, Created = 1594246600,
          Measures = [\<lparr>Value = 75000, Type = 1\<rparr>, \<lparr>Value = 180, Type = 4\<rparr>]\<rparr>,
         \<lparr>Date = 1594159200, Created = 1594159300,
          Measures = [\<lparr>Value = 80000, Type = 1\<rparr>]\<rparr>]\<rparr>\<rparr>, None)"
  by (simp add: mock_Unmarshal_Measures_def Measures_zero_def)


lemma mock_Unmarshal_html:
  "mock_Unmarshal_Measures body_html Measures_zero =
     (Measures_zero, Some ''invalid character '<' looking for beginning of value'')"
  "mock_Unmarshal_RequestToken body_html RequestToken_zero =
     (RequestToken_zero, Some ''invalid character '<' looking for beginning of value'')"
  by (simp_all add: mock_Unmarshal_Measures_def mock_Unmarshal_RequestToken_def)

lemma mock_Unmarshal_token:
  "mock_Unmarshal_RequestToken body_token RequestToken_zero =
     (\<lparr>rt_Status = 0, rt_Error = [],
       rt_Body = \<lparr>AccessToken = ''a075f8c14fb8'', RefreshToken = ''f631236f02b9'',
                  Scope = ''user.info,user.metrics'', ExpiresIn = ''10800'',
                  TokenType = ''Bearer''\<rparr>\<rparr>, None)"
  by (simp add: mock_Unmarshal_RequestToken_def RequestToken_zero_def)

text \<open>
  Two whole runs of \<^verbatim>\<open>main\<close>: with a preset token against the mock response of
  the specification, and with application credentials against an API that hands out a
  token and then the fuller measurement response.
\<close>

lemma fetch_preset:
  "getWeightMeasurements (mock_world env_token (answer body_75000)) withingsAPIBaseURL
     ''preset-t0ken''
   = ([NewRequest ''POST'' (getmeas_url withingsAPIBaseURL),
       Do (getmeas_request withingsAPIBaseURL ''preset-t0ken''), ReadAll, Close], Inr 75)"
  by (simp add: gwm_Do_response
        [where res = "\<lparr>StatusCode = 200, Body = body_75000\<rparr>" and err = None]
        answer_def mock_Unmarshal_75000 index_def)

lemma run_preset:
  "main (mock_world env_token (answer body_75000)) =
     ([NewGauge gauge_name ''Shows the latest weight measurement (assumed in kg)'',
       NewRequest ''POST'' (getmeas_url withingsAPIBaseURL),
       Do (getmeas_request withingsAPIBaseURL ''preset-t0ken''),
       ReadAll, Close,
       MustRegister gauge_name,
       GaugeSet gauge_name 75,
       LogPrintf ''Setting withings_current_weight_metric to %fkg.'' [75],
       Handle ''/metrics'',
       LogPrintf ''Serving metrics on http://localhost:8080/metrics. Configure your Prometheus to scrape accordingly.'' [],
       ListenAndServe '':8080'',
       Served ''/metrics'', Served ''/favicon.ico'', Served ''/metrics''],
      Serving)"
  by (simp add: main_preset fetch_preset main_metrics_serving [where cw = 75])

lemma run_oauth:
  "main (mock_world env_app (api body_full)) =
     (oauth_prompts ''client-1d'' ''user.info,user.metrics'' ''c0de''
      @ [NewRequest ''POST'' (token_url withingsAPIBaseURL ''client-1d'' ''s3cret'' ''c0de''),
         Do (token_request withingsAPIBaseURL ''client-1d'' ''s3cret'' ''c0de''),
         ReadAll,
         Stdout (''To avoid reauthenticating every time, run `export WITHINGS_API_ACCESS_TOKEN=a075f8c14fb8`'' @ nl),
         Close,
         NewGauge gauge_name ''Shows the latest weight measurement (assumed in kg)'',
         NewRequest ''POST'' (getmeas_url withingsAPIBaseURL),
         Do (getmeas_request withingsAPIBaseURL ''a075f8c14fb8''),
         ReadAll, Close,
         MustRegister gauge_name,
         GaugeSet gauge_name 75,
         LogPrintf ''Setting withings_current_weight_metric to %fkg.'' [75],
         Handle ''/metrics'',
         LogPrintf ''Serving metrics on http://localhost:8080/metrics. Configure your Prometheus to scrape accordingly.'' [],
         ListenAndServe '':8080'',
         Served ''/metrics'', Served ''/favicon.ico'', Served ''/metrics''],
      Serving)"
proof -
  let ?W = "mock_world env_app (api body_full)"
  have flow: "oauthFlow ?W withingsAPIBaseURL ''client-1d'' ''s3cret'' ''user.info,user.metrics''
        = (oauth_prompts ''client-1d'' ''user.info,user.metrics'' ''c0de''
           @ [NewRequest ''POST'' (token_url withingsAPIBaseURL ''client-1d'' ''s3cret'' ''c0de''),
              Do (token_request withingsAPIBaseURL ''client-1d'' ''s3cret'' ''c0de''),
              ReadAll,
              Stdout (''To avoid reauthenticating every time, run `export WITHINGS_API_ACCESS_TOKEN=a075f8c14fb8`'' @ nl),
              Close],
           Inr (''c0de'', ''a075f8c14fb8''))"
    by (simp add: oauthFlow_Do_response [where res = "\<lparr>StatusCode = 200, Body = body_token\<rparr>" and err = None]
          api_def answer_def mock_Unmarshal_token)
  have gwm: "getWeightMeasurements ?W withingsAPIBaseURL ''a075f8c14fb8''
        = ([NewRequest ''POST'' (getmeas_url withingsAPIBaseURL),
            Do (getmeas_request withingsAPIBaseURL ''a075f8c14fb8''), ReadAll, Close], Inr 75)"
    by (simp add: gwm_Do_response [where res = "\<lparr>StatusCode = 200, Body = body_full\<rparr>" and err = None]
          api_def answer_def mock_Unmarshal_full index_def)
  have "main ?W = (fst (oauthFlow ?W withingsAPIBaseURL ''client-1d'' ''s3cret'' ''user.info,user.metrics'')
                   @ fst (main_metrics ?W ''a075f8c14fb8''), snd (main_metrics ?W ''a075f8c14fb8''))"
    using main_oauth [of ?W] by (simp add: flow)
  then show ?thesis
    by (simp add: flow gwm main_metrics_serving [where cw = 75])
qed

section \<open>The claims\<close>



text \<open>
  A response the decoder fails on, leaving the zero-valued struct as it was, is a
  response with an empty group list.
\<close>

lemma undecoded_has_no_groups:
  assumes "json_Unmarshal_Measures w body Measures_zero = (Measures_zero, Some e)"
  shows "MeasureGroups (ms_Body (fst (json_Unmarshal_Measures w body Measures_zero))) = []"
  using assms by (simp add: Measures_zero_def)



text \<open>
  C3. When \<^verbatim>\<open>WITHINGS_API_ACCESS_TOKEN\<close> is set to a non-empty string, \<^verbatim>\<open>main\<close>
  is its second half run on that string: the trace begins with the making of the gauge
  and the trace of \<^verbatim>\<open>getWeightMeasurements\<close> called with the preset token, no event
  of the authorization flow occurs in it (no code is read, no request for the token
  endpoint is built or sent), and every request sent is the measurement request
  carrying the preset token.
\<close>

theorem main_preset_token_skips_oauthFlow:
  assumes "os_Getenv w ''WITHINGS_API_ACCESS_TOKEN'' \<noteq> []"
  shows "main w = main_metrics w (os_Getenv w ''WITHINGS_API_ACCESS_TOKEN'')
     \<and> prefix (NewGauge gauge_name ''Shows the latest weight measurement (assumed in kg)''
          # fst (getWeightMeasurements w withingsAPIBaseURL
                  (os_Getenv w ''WITHINGS_API_ACCESS_TOKEN'')))
         (fst (main w))
     \<and> list_all (\<lambda>e. \<not> oauth_event e) (fst (main w))
     \<and> (\<forall>req. Do req \<in> set (fst (main w)) \<longrightarrow>
           req = getmeas_request withingsAPIBaseURL (os_Getenv w ''WITHINGS_API_ACCESS_TOKEN''))"
  using assms
  by (auto simp: main_preset main_metrics_trace_prefix main_metrics_no_oauth_event
        dest: main_metrics_Do_sent)

text \<open>
  The run with a preset token: one request goes out, the measurement request with
  the preset token.
\<close>

theorem main_preset_token_skips_oauthFlow_witness:
  "os_Getenv (mock_world env_token (answer body_75000)) ''WITHINGS_API_ACCESS_TOKEN''
     = ''preset-t0ken''
   \<and> main (mock_world env_token (answer body_75000))
     = main_metrics (mock_world env_token (answer body_75000)) ''preset-t0ken''
   \<and> list_all (\<lambda>e. \<not> oauth_event e) (fst (main (mock_world env_token (answer body_75000))))
   \<and> filter is_Do (fst (main (mock_world env_token (answer body_75000))))
     = [Do (getmeas_request withingsAPIBaseURL ''preset-t0ken'')]"
proof -
  let ?W = "mock_world env_token (answer body_75000)"
  have tok: "os_Getenv ?W ''WITHINGS_API_ACCESS_TOKEN'' = ''preset-t0ken''"
    by simp
  have set: "os_Getenv ?W ''WITHINGS_API_ACCESS_TOKEN'' \<noteq> []"
    by simp
  note skip = main_preset_token_skips_oauthFlow [OF set, unfolded tok]
  from skip have skipped: "main ?W = main_metrics ?W ''preset-t0ken''"
    by (rule conjunct1)
  from skip have quiet: "list_all (\<lambda>e. \<not> oauth_event e) (fst (main ?W))"
    by blast
  have sent: "filter is_Do (fst (main ?W))
                = [Do (getmeas_request withingsAPIBaseURL ''preset-t0ken'')]"
    by (simp add: run_preset)
  from tok skipped quiet sent show ?thesis by (intro conjI)
qed

text \<open>
  The claim C4 as the specification states it fails twice over. With the network down,
  \<^verbatim>\<open>client.Do\<close> returns a \<^verbatim>\<open>nil\<close> response and an error; the error is printed, and
  then \<^verbatim>\<open>oauthFlow\<close> dereferences the \<^verbatim>\<open>nil\<close> response and panics: it returns no
  token. With a body that is no JSON, the decoder's error is printed nowhere: the whole
  output is the two prompts and the export hint.
\<close>

theorem oauthFlow_errors_counterexample:
  "client_Do (mock_world env_app unreachable)
       (token_request withingsAPIBaseURL ''client-1d'' ''s3cret'' ''c0de'')
     = (None, Some ''dial tcp: lookup wbsapi.withings.net: no such host'')
   \<and> oauthFlow (mock_world env_app unreachable) withingsAPIBaseURL ''client-1d'' ''s3cret''
       ''user.info,user.metrics''
     = (oauth_prompts ''client-1d'' ''user.info,user.metrics'' ''c0de''
        @ [NewRequest ''POST'' (token_url withingsAPIBaseURL ''client-1d'' ''s3cret'' ''c0de''),
           Do (token_request withingsAPIBaseURL ''client-1d'' ''s3cret'' ''c0de''),
           Stdout (''dial tcp: lookup wbsapi.withings.net: no such host'' @ nl)],
        Inl NilPointerDereference)
   \<and> json_Unmarshal_RequestToken (mock_world env_app (answer body_html)) body_html
       RequestToken_zero
     = (RequestToken_zero, Some ''invalid character '<' looking for beginning of value'')
   \<and> oauthFlow (mock_world env_app (answer body_html)) withingsAPIBaseURL ''client-1d''
       ''s3cret'' ''user.info,user.metrics''
     = (oauth_prompts ''client-1d'' ''user.info,user.metrics'' ''c0de''
        @ [NewRequest ''POST'' (token_url withingsAPIBaseURL ''client-1d'' ''s3cret'' ''c0de''),
           Do (token_request withingsAPIBaseURL ''client-1d'' ''s3cret'' ''c0de''),
           ReadAll,
           Stdout (''To avoid reauthenticating every time, run `export WITHINGS_API_ACCESS_TOKEN=`'' @ nl),
           Close],
        Inr (''c0de'', []))"
proof -
  have down: "oauthFlow (mock_world env_app unreachable) withingsAPIBaseURL ''client-1d''
       ''s3cret'' ''user.info,user.metrics''
     = (oauth_prompts ''client-1d'' ''user.info,user.metrics'' ''c0de''
        @ [NewRequest ''POST'' (token_url withingsAPIBaseURL ''client-1d'' ''s3cret'' ''c0de''),
           Do (token_request withingsAPIBaseURL ''client-1d'' ''s3cret'' ''c0de''),
           Stdout (''dial tcp: lookup wbsapi.withings.net: no such host'' @ nl)],
        Inl NilPointerDereference)"
    by (simp add: oauthFlow_Do_nil
          [where err = "Some ''dial tcp: lookup wbsapi.withings.net: no such host''"]
          unreachable_def)
  have html: "oauthFlow (mock_world env_app (answer body_html)) withingsAPIBaseURL ''client-1d''
       ''s3cret'' ''user.info,user.metrics''
     = (oauth_prompts ''client-1d'' ''user.info,user.metrics'' ''c0de''
        @ [NewRequest ''POST'' (token_url withingsAPIBaseURL ''client-1d'' ''s3cret'' ''c0de''),
           Do (token_request withingsAPIBaseURL ''client-1d'' ''s3cret'' ''c0de''),
           ReadAll,
           Stdout (''To avoid reauthenticating every time, run `export WITHINGS_API_ACCESS_TOKEN=`'' @ nl),
           Close],
        Inr (''c0de'', []))"
    by (simp add: oauthFlow_Do_response
          [where res = "\<lparr>StatusCode = 200, Body = body_html\<rparr>" and err = None]
          answer_def mock_Unmarshal_html RequestToken_zero_token)
  show ?thesis
    by (simp only: down html) (simp add: unreachable_def mock_Unmarshal_html)
qed

text \<open>
  C4, amended. In every execution of \<^verbatim>\<open>oauthFlow\<close> in which the token request is
  built and \<^verbatim>\<open>client.Do\<close> returns a response, an error \<^verbatim>\<open>client.Do\<close> returned with
  it is printed to standard output, and an error of \<^verbatim>\<open>json.Unmarshal\<close> that left the
  struct untouched is dropped without being printed: what is printed and done does not
  depend on it, the flow does not crash, and it returns the empty access token.
\<close>

theorem oauthFlow_response_errors:
  assumes "http_NewRequest w ''POST'' (token_url base clientID clientSecret (fmt_Scanln w)) = None"
      and "client_Do w (token_request base clientID clientSecret (fmt_Scanln w)) = (Some res, err)"
      and "json_Unmarshal_RequestToken w (Body res) RequestToken_zero = (RequestToken_zero, Some e)"
  shows "oauthFlow w base clientID clientSecret scopes =
           (oauth_prompts clientID scopes (fmt_Scanln w)
              @ NewRequest ''POST'' (token_url base clientID clientSecret (fmt_Scanln w))
              # Do (token_request base clientID clientSecret (fmt_Scanln w))
              # println_err err
              @ [ReadAll,
                 Stdout (''To avoid reauthenticating every time, run `export WITHINGS_API_ACCESS_TOKEN=`'' @ nl),
                 Close],
            Inr (fmt_Scanln w, []))"
  using assms by (simp add: oauthFlow_Do_response RequestToken_zero_token)

text \<open>
  An answer that is an HTML error page: the decoder fails, its error text is not in
  the trace, and the token returned is empty.
\<close>

theorem oauthFlow_response_errors_witness:
  "client_Do (mock_world env_app (answer body_html))
       (token_request withingsAPIBaseURL ''client-1d'' ''s3cret'' ''c0de'')
     = (Some \<lparr>StatusCode = 200, Body = body_html\<rparr>, None)
   \<and> json_Unmarshal_RequestToken (mock_world env_app (answer body_html)) body_html
       RequestToken_zero
     = (RequestToken_zero, Some ''invalid character '<' looking for beginning of value'')
   \<and> snd (oauthFlow (mock_world env_app (answer body_html)) withingsAPIBaseURL ''client-1d''
         ''s3cret'' ''user.info,user.metrics'') = Inr (''c0de'', [])
   \<and> Stdout (''invalid character '<' looking for beginning of value'' @ nl)
       \<notin> set (fst (oauthFlow (mock_world env_app (answer body_html)) withingsAPIBaseURL
                     ''client-1d'' ''s3cret'' ''user.info,user.metrics''))"
  using oauthFlow_response_errors
    [of "mock_world env_app (answer body_html)" withingsAPIBaseURL "''client-1d''" "''s3cret''"
        "\<lparr>StatusCode = 200, Body = body_html\<rparr>" None
        "''invalid character '<' looking for beginning of value''" "''user.info,user.metrics''"]
  by (simp add: answer_def mock_Unmarshal_html)

text \<open>
  C5. For every response of the token endpoint, the second value \<^verbatim>\<open>oauthFlow\<close>
  returns is the \<^verbatim>\<open>access_token\<close> field of the parsed response body
  (\<^verbatim>\<open>parsedRequestToken.Body.AccessToken\<close>); the first is the code that was typed.
\<close>

theorem oauthFlow_returns_access_token:
  assumes "http_NewRequest w ''POST'' (token_url base clientID clientSecret (fmt_Scanln w)) = None"
      and "client_Do w (token_request base clientID clientSecret (fmt_Scanln w)) = (Some res, err)"
      and "fst (json_Unmarshal_RequestToken w (Body res) RequestToken_zero) = parsedRequestToken"
  shows "snd (oauthFlow w base clientID clientSecret scopes) =
           Inr (fmt_Scanln w, AccessToken (rt_Body parsedRequestToken))"
  using assms by (auto simp: oauthFlow_Do_response)

text \<open>
  The API answers the token request with a token response; the flow returns its
  \<^verbatim>\<open>access_token\<close>.
\<close>

theorem oauthFlow_returns_access_token_witness:
  "client_Do (mock_world env_app (api body_full))
       (token_request withingsAPIBaseURL ''client-1d'' ''s3cret'' ''c0de'')
     = (Some \<lparr>StatusCode = 200, Body = body_token\<rparr>, None)
   \<and> AccessToken (rt_Body (fst (json_Unmarshal_RequestToken (mock_world env_app (api body_full))
         body_token RequestToken_zero))) = ''a075f8c14fb8''
   \<and> snd (oauthFlow (mock_world env_app (api body_full)) withingsAPIBaseURL ''client-1d''
         ''s3cret'' ''user.info,user.metrics'') = Inr (''c0de'', ''a075f8c14fb8'')"
  using oauthFlow_returns_access_token
    [of "mock_world env_app (api body_full)" withingsAPIBaseURL "''client-1d''" "''s3cret''"
        "\<lparr>StatusCode = 200, Body = body_token\<rparr>" None
        "fst (mock_Unmarshal_RequestToken body_token RequestToken_zero)"
        "''user.info,user.metrics''"]
  by (simp add: api_def answer_def mock_Unmarshal_token)

text \<open>
  C6. When \<^verbatim>\<open>WITHINGS_API_ACCESS_TOKEN\<close> is empty and one of
  \<^verbatim>\<open>WITHINGS_APP_CLIENT_ID\<close>, \<^verbatim>\<open>WITHINGS_APP_CLIENT_SECRET\<close> is empty, \<^verbatim>\<open>main\<close>
  prints the setup message and returns: that line is the whole trace, so no request is
  built or sent, no gauge is made or registered and no listener is entered. It is the
  only validated precondition: \<^verbatim>\<open>main\<close> returns in no other environment.
\<close>

theorem main_missing_credentials_returns:
  "(os_Getenv w ''WITHINGS_API_ACCESS_TOKEN'' = []
      \<and> (os_Getenv w ''WITHINGS_APP_CLIENT_ID'' = []
           \<or> os_Getenv w ''WITHINGS_APP_CLIENT_SECRET'' = [])
    \<longrightarrow> main w =
         ([Stdout (''Set your Withings API application up with `WITHINGS_APP_CLIENT_ID` and `WITHINGS_APP_CLIENT_SECRET` envvars.'' @ nl)],
          Returned))
   \<and> (snd (main w) = Returned
        \<longleftrightarrow> os_Getenv w ''WITHINGS_API_ACCESS_TOKEN'' = []
            \<and> (os_Getenv w ''WITHINGS_APP_CLIENT_ID'' = []
                 \<or> os_Getenv w ''WITHINGS_APP_CLIENT_SECRET'' = []))"
proof -
  let ?cond = "os_Getenv w ''WITHINGS_API_ACCESS_TOKEN'' = []
      \<and> (os_Getenv w ''WITHINGS_APP_CLIENT_ID'' = []
           \<or> os_Getenv w ''WITHINGS_APP_CLIENT_SECRET'' = [])"
  have early: "snd (main w) = Returned" if ?cond
    using that main_no_credentials [of w] by auto
  have late: "snd (main w) \<noteq> Returned" if "\<not> ?cond"
  proof (cases "os_Getenv w ''WITHINGS_API_ACCESS_TOKEN'' = []")
    case False
    then show ?thesis by (simp add: main_preset main_metrics_not_Returned)
  next
    case True
    with that have "os_Getenv w ''WITHINGS_APP_CLIENT_ID'' \<noteq> []"
      and "os_Getenv w ''WITHINGS_APP_CLIENT_SECRET'' \<noteq> []" by auto
    with True show ?thesis
      by (simp add: main_oauth main_metrics_not_Returned split: sum.splits prod.splits)
  qed
  from early late main_no_credentials [of w] show ?thesis by blast
qed

text \<open>
  Nothing set, and a client id without a secret: the setup message and a return. A
  preset token, and full credentials: no return.
\<close>

theorem main_missing_credentials_returns_witness:
  "main (mock_world env_unset unreachable) =
     ([Stdout (''Set your Withings API application up with `WITHINGS_APP_CLIENT_ID` and `WITHINGS_APP_CLIENT_SECRET` envvars.'' @ nl)],
      Returned)
   \<and> main (mock_world env_id_only unreachable) =
     ([Stdout (''Set your Withings API application up with `WITHINGS_APP_CLIENT_ID` and `WITHINGS_APP_CLIENT_SECRET` envvars.'' @ nl)],
      Returned)
   \<and> snd (main (mock_world env_token (answer body_75000))) \<noteq> Returned
   \<and> snd (main (mock_world env_app (api body_full))) \<noteq> Returned"
  using main_missing_credentials_returns [of "mock_world env_unset unreachable"]
    main_missing_credentials_returns [of "mock_world env_id_only unreachable"]
    main_missing_credentials_returns [of "mock_world env_token (answer body_75000)"]
    main_missing_credentials_returns [of "mock_world env_app (api body_full)"]
  by simp

text \<open>
  C8. In every execution of \<^verbatim>\<open>main\<close> that enters the listener, there is a weight
  \<open>cw\<close>, the one \<^verbatim>\<open>getWeightMeasurements\<close> returned for the token in use, such that
  the events before the entry into the listener contain exactly one \<^verbatim>\<open>Set\<close>, of
  the gauge \<open>withings_current_weight\<close> to \<open>cw\<close>; the events from the entry on,
  the steps of the serving loop among them, contain none; and at every point of the
  trace from the entry into the listener on, the gauge holds \<open>cw\<close>.
\<close>

theorem gauge_set_once_before_serving:
  assumes "ListenAndServe '':8080'' \<in> set (fst (main w))"
  shows "\<exists>cw.
      (if os_Getenv w ''WITHINGS_API_ACCESS_TOKEN'' \<noteq> [] then
         snd (getWeightMeasurements w withingsAPIBaseURL
                (os_Getenv w ''WITHINGS_API_ACCESS_TOKEN'')) = Inr cw
       else
         (\<exists>code tok.
            snd (oauthFlow w withingsAPIBaseURL (os_Getenv w ''WITHINGS_APP_CLIENT_ID'')
                   (os_Getenv w ''WITHINGS_APP_CLIENT_SECRET'') ''user.info,user.metrics'')
              = Inr (code, tok)
            \<and> snd (getWeightMeasurements w withingsAPIBaseURL tok) = Inr cw))
    \<and> filter is_GaugeSet (takeWhile (\<lambda>e. e \<noteq> ListenAndServe '':8080'') (fst (main w)))
        = [GaugeSet gauge_name cw]
    \<and> filter is_GaugeSet (dropWhile (\<lambda>e. e \<noteq> ListenAndServe '':8080'') (fst (main w))) = []
    \<and> (\<forall>k. length (takeWhile (\<lambda>e. e \<noteq> ListenAndServe '':8080'') (fst (main w))) \<le> k
          \<longrightarrow> gauge_value gauge_name (take k (fst (main w))) = Some cw)"
proof -
  let ?L = "ListenAndServe '':8080''"
  from assms obtain P cw S where t: "fst (main w) = P @ startup_tail cw @ ?L # S"
    and P: "list_all startup_event P"
    and S: "list_all serving_event S"
    and cw: "if os_Getenv w ''WITHINGS_API_ACCESS_TOKEN'' \<noteq> [] then
           snd (getWeightMeasurements w withingsAPIBaseURL
                  (os_Getenv w ''WITHINGS_API_ACCESS_TOKEN'')) = Inr cw
         else
           (\<exists>code tok.
              snd (oauthFlow w withingsAPIBaseURL (os_Getenv w ''WITHINGS_APP_CLIENT_ID'')
                     (os_Getenv w ''WITHINGS_APP_CLIENT_SECRET'') ''user.info,user.metrics'')
                = Inr (code, tok)
              \<and> snd (getWeightMeasurements w withingsAPIBaseURL tok) = Inr cw)"
    by (rule main_listener)
  have t': "fst (main w) = (P @ startup_tail cw) @ (?L # S)"
    by (simp add: t)
  have Pne: "\<forall>e \<in> set P. e \<noteq> ?L"
    using startup_event_not_listener [OF P] by auto
  have before: "takeWhile (\<lambda>e. e \<noteq> ?L) (fst (main w)) = P @ startup_tail cw"
    using Pne by (simp add: t)
  have after: "dropWhile (\<lambda>e. e \<noteq> ?L) (fst (main w)) = ?L # S"
    using Pne by (simp add: t)
  have once: "filter is_GaugeSet (P @ startup_tail cw) = [GaugeSet gauge_name cw]"
    by (simp add: startup_event_no_GaugeSet [OF P])
  have never: "filter is_GaugeSet (?L # S) = []"
    by (simp add: serving_event_no_GaugeSet [OF S])
  have set: "gauge_value gauge_name (P @ startup_tail cw) = Some cw"
    by (simp add: gauge_value_def)
  have held: "gauge_value gauge_name (take k (fst (main w))) = Some cw"
    if "length (P @ startup_tail cw) \<le> k" for k
  proof -
    have "take k (fst (main w)) = (P @ startup_tail cw) @ take (k - length (P @ startup_tail cw)) (?L # S)"
      using that unfolding t' by (rule take_past_prefix)
    moreover have "list_all serving_event (take j S)" for j
      using S by (auto simp: list_all_iff dest: in_set_takeD)
    then have "foldl (gauge_step gauge_name) v (take j (?L # S)) = v" for j v
      by (cases j) (simp_all add: serving_events_keep_gauge)
    ultimately show ?thesis
      using set by (simp only: gauge_value_def foldl_append)
  qed
  from cw before after once never held show ?thesis
    by (intro exI [of _ cw]) (simp only: simp_thms, blast)
qed

text \<open>
  The run with a preset token enters the listener: one \<^verbatim>\<open>Set\<close> to 75 before it,
  none after, and the gauge holds 75 when the listener is entered, after the first
  request served, and at the end of the trace.
\<close>

theorem gauge_set_once_before_serving_witness:
  "ListenAndServe '':8080'' \<in> set (fst (main (mock_world env_token (answer body_75000))))
   \<and> snd (getWeightMeasurements (mock_world env_token (answer body_75000)) withingsAPIBaseURL
         ''preset-t0ken'') = Inr 75
   \<and> filter is_GaugeSet (takeWhile (\<lambda>e. e \<noteq> ListenAndServe '':8080'')
         (fst (main (mock_world env_token (answer body_75000)))))
     = [GaugeSet gauge_name 75]
   \<and> filter is_GaugeSet (dropWhile (\<lambda>e. e \<noteq> ListenAndServe '':8080'')
         (fst (main (mock_world env_token (answer body_75000))))) = []
   \<and> gauge_value gauge_name (take 11 (fst (main (mock_world env_token (answer body_75000)))))
     = Some 75
   \<and> gauge_value gauge_name (take 12 (fst (main (mock_world env_token (answer body_75000)))))
     = Some 75
   \<and> gauge_value gauge_name (fst (main (mock_world env_token (answer body_75000)))) = Some 75"
proof -
  let ?W = "mock_world env_token (answer body_75000)"
  let ?t = "fst (main ?W)"
  have reach: "ListenAndServe '':8080'' \<in> set ?t"
    by (simp add: run_preset)
  have w: "snd (getWeightMeasurements ?W withingsAPIBaseURL ''preset-t0ken'') = Inr 75"
    by (simp add: fetch_preset)
  from gauge_set_once_before_serving [OF reach] w
  have once: "filter is_GaugeSet (takeWhile (\<lambda>e. e \<noteq> ListenAndServe '':8080'') ?t)
                = [GaugeSet gauge_name 75]"
    and never: "filter is_GaugeSet (dropWhile (\<lambda>e. e \<noteq> ListenAndServe '':8080'') ?t) = []"
    and held: "\<And>k. length (takeWhile (\<lambda>e. e \<noteq> ListenAndServe '':8080'') ?t) \<le> k
                 \<Longrightarrow> gauge_value gauge_name (take k ?t) = Some 75"
    by auto
  have len: "length (takeWhile (\<lambda>e. e \<noteq> ListenAndServe '':8080'') ?t) = 10" "length ?t = 14"
    by (simp_all add: run_preset)
  from held [of 11] held [of 12] held [of 14] len
  have "gauge_value gauge_name (take 11 ?t) = Some 75"
    and "gauge_value gauge_name (take 12 ?t) = Some 75"
    and "gauge_value gauge_name ?t = Some 75"
    by simp_all
  with reach w once never show ?thesis by simp
qed

text \<open>
  C9. The weight \<^verbatim>\<open>getWeightMeasurements\<close> extracts depends on the response only
  through the \<^verbatim>\<open>value\<close> of the first measure of the first group: two answered
  requests, in any two worlds and with any tokens, whose parsed responses agree on
  that field give the same result, whatever their status, dates, types and further
  groups and measures are.
\<close>

theorem getWeightMeasurements_depends_on_first_value:
  assumes "http_NewRequest w1 ''POST'' (getmeas_url base1) = None"
      and "client_Do w1 (getmeas_request base1 tok1) = (Some res1, err1)"
      and "MeasureGroups (ms_Body (fst (json_Unmarshal_Measures w1 (Body res1) Measures_zero)))
             = g1 # gs1"
      and "Measures g1 = m1 # ms1"
      and "http_NewRequest w2 ''POST'' (getmeas_url base2) = None"
      and "client_Do w2 (getmeas_request base2 tok2) = (Some res2, err2)"
      and "MeasureGroups (ms_Body (fst (json_Unmarshal_Measures w2 (Body res2) Measures_zero)))
             = g2 # gs2"
      and "Measures g2 = m2 # ms2"
      and "Value m1 = Value m2"
  shows "snd (getWeightMeasurements w1 base1 tok1) = snd (getWeightMeasurements w2 base2 tok2)"
  using assms by (simp add: gwm_Do_response index_def)

text \<open>
  The mock response of the specification and the fuller response differ in status,
  dates, types and in the number of groups and measures, and give the same weight.
\<close>

theorem getWeightMeasurements_depends_on_first_value_witness:
  "fst (json_Unmarshal_Measures (mock_world env_token (answer body_75000)) body_75000
       Measures_zero)
     \<noteq> fst (json_Unmarshal_Measures (mock_world env_app (api body_full)) body_full
           Measures_zero)
   \<and> snd (getWeightMeasurements (mock_world env_token (answer body_75000))
         withingsAPIBaseURL ''preset-t0ken'')
     = snd (getWeightMeasurements (mock_world env_app (api body_full))
         withingsAPIBaseURL ''a075f8c14fb8'')"
  using getWeightMeasurements_depends_on_first_value
    [of "mock_world env_token (answer body_75000)" withingsAPIBaseURL "''preset-t0ken''"
        "\<lparr>StatusCode = 200, Body = body_75000\<rparr>" None
        "\<lparr>Date = 0, Created = 0, Measures = [\<lparr>Value = 75000, Type = 0\<rparr>]\<rparr>" "[]"
        "\<lparr>Value = 75000, Type = 0\<rparr>" "[]"
        "mock_world env_app (api body_full)" withingsAPIBaseURL "''a075f8c14fb8''"
        "\<lparr>StatusCode = 200, Body = body_full\<rparr>" None
        "\<lparr>Date = 1594245600, Created = 1594246600,
          Measures = [\<lparr>Value = 75000, Type = 1\<rparr>, \<lparr>Value = 180, Type = 4\<rparr>]\<rparr>"
        "[\<lparr>Date = 1594159200, Created = 1594159300,
          Measures = [\<lparr>Value = 80000, Type = 1\<rparr>]\<rparr>]"
        "\<lparr>Value = 75000, Type = 1\<rparr>" "[\<lparr>Value = 180, Type = 4\<rparr>]"]
  by (simp add: api_def answer_def mock_Unmarshal_75000 mock_Unmarshal_full)

text \<open>
  C10. For every access token, \<^verbatim>\<open>getWeightMeasurements\<close> builds exactly one request,
  a POST to the base URL followed by
  \<^verbatim>\<open>/measure?action=getmeas&meastypes=1&category=1&lastupdate=integer\<close>, the
  parameter \<^verbatim>\<open>lastupdate\<close> being the literal text \<^verbatim>\<open>integer\<close>; once built, the
  request is sent exactly once, with the one header \<^verbatim>\<open>Authorization\<close> set to
  \<^verbatim>\<open>Bearer\<close>, a space and the token. (When \<^verbatim>\<open>http.NewRequest\<close> refuses the
  URL, nothing is sent.)
\<close>

theorem getWeightMeasurements_request:
  "filter is_NewRequest (fst (getWeightMeasurements w base tok))
     = [NewRequest ''POST'' (getmeas_url base)]
   \<and> filter is_Do (fst (getWeightMeasurements w base tok))
     = (case http_NewRequest w ''POST'' (getmeas_url base) of
          None \<Rightarrow> [Do (getmeas_request base tok)]
        | Some e \<Rightarrow> [])"
proof (cases rule: gwm_cases [where w = w and base = base and tok = tok])
  case (NewRequest_error e)
  then show ?thesis by (simp add: gwm_NewRequest_error)
next
  case (Do_nil err)
  then show ?thesis by (simp add: gwm_Do_nil)
next
  case (Do_response res err)
  then show ?thesis by (simp add: gwm_Do_response)
qed

text \<open>
  The empty token, against the base URL of \<^verbatim>\<open>main\<close>: the URL and the header in
  full.
\<close>

theorem getWeightMeasurements_request_witness:
  "filter is_NewRequest (fst (getWeightMeasurements (mock_world env_unset unreachable)
       withingsAPIBaseURL []))
     = [NewRequest ''POST'' ''https://wbsapi.withings.net/measure?action=getmeas&meastypes=1&category=1&lastupdate=integer'']
   \<and> filter is_Do (fst (getWeightMeasurements (mock_world env_unset unreachable)
       withingsAPIBaseURL []))
     = [Do \<lparr>Method = ''POST'',
            URL = ''https://wbsapi.withings.net/measure?action=getmeas&meastypes=1&category=1&lastupdate=integer'',
            Header = [(''Authorization'', ''Bearer '')]\<rparr>]"
  using getWeightMeasurements_request [of "mock_world env_unset unreachable" withingsAPIBaseURL "[]"]
  by (simp add: withingsAPIBaseURL_def)

end
